theory Spec2Isabelle
  imports Complex_Main
begin

section \<open>lib/dialer/internal.go: data model\<close>

text \<open>
  Go's \<open>error\<close> values are opaque to this package: they are produced by the dial
  functions and handed on. An error is represented by its message.
\<close>

datatype error = Error string

text \<open>
  A panic of the Go runtime is an outcome of its own, \<open>Inl\<close> of a result:
  calling a method on a nil interface value, a failed type assertion, an integer division
  by zero, and the explicit \<open>panic("sha256 is broken")\<close> of lib/sha256.
\<close>

datatype panic = NilDereference | TypeAssertion | DivideByZero | Sha256Broken

text \<open>
  The address types of package net that occur here (\<open>*net.IPAddr\<close>, the result of
  \<open>net.ResolveIPAddr\<close>, and \<open>*net.TCPAddr\<close>, the addresses of a TCP connection and
  the entries of the registry) are represented by their printed form.
\<close>

datatype IPAddr = IPAddr string

datatype TCPAddr = TCPAddr string

text \<open>
  \<open>type fallbackAddr struct { network string; addr string }\<close>. The fields carry the
  prefix \<open>fa_\<close>, so that \<open>network\<close> and \<open>addr\<close> stay free for the parameters of the
  functions below, as in the source.
\<close>

record fallbackAddr =
  fa_network :: string
  fa_addr :: string

definition fallbackAddr_Network :: "fallbackAddr \<Rightarrow> string" where
  "fallbackAddr_Network a = fa_network a"

definition fallbackAddr_String :: "fallbackAddr \<Rightarrow> string" where
  "fallbackAddr_String a = fa_addr a"

text \<open>
  A value of the interface \<open>net.Addr\<close> is one of the concrete address types, with the
  two methods of the interface dispatching on it.
\<close>

datatype Addr = AddrIP IPAddr | AddrTCP TCPAddr | AddrFallback fallbackAddr

fun Network :: "Addr \<Rightarrow> string" where
  "Network (AddrIP a) = ''ip''"
| "Network (AddrTCP a) = ''tcp''"
| "Network (AddrFallback a) = fallbackAddr_Network a"

fun String :: "Addr \<Rightarrow> string" where
  "String (AddrIP (IPAddr s)) = s"
| "String (AddrTCP (TCPAddr s)) = s"
| "String (AddrFallback a) = fallbackAddr_String a"

text \<open>
  A value of the interface \<open>net.Conn\<close>: a connection of package net (its descriptor, its
  local and its remote address), or \<open>type dialerConn struct { net.Conn; addr net.Addr }\<close>.
  \<open>dialerConn\<close> embeds the connection, so every method but \<open>RemoteAddr\<close> is the embedded
  connection's.
\<close>

datatype Conn = NetConn nat Addr Addr | DialerConn Conn Addr

fun RemoteAddr :: "Conn \<Rightarrow> Addr" where
  "RemoteAddr (NetConn fd lcl rmt) = rmt"
| "RemoteAddr (DialerConn c a) = a"


text \<open>
  \<open>type dialFunc func(network, addr string) (net.Conn, error)\<close>. A dial acts on the
  world (the network, the sockets of the process), of type \<open>'s\<close>, and returns both values
  of the Go pair: \<open>None\<close> is \<open>nil\<close>.
\<close>

type_synonym 's dialFunc = "string \<Rightarrow> string \<Rightarrow> 's \<Rightarrow> (Conn option \<times> error option) \<times> 's"

section \<open>lib/dialer/internal.go: functions\<close>

text \<open>
  \<open>newDialerAddr\<close>. \<open>net.ResolveIPAddr\<close> belongs to the standard library and is a
  parameter; a lookup reads the world.
\<close>

definition newDialerAddr ::
  "(string \<Rightarrow> string \<Rightarrow> 's \<Rightarrow> error + IPAddr) \<Rightarrow> string \<Rightarrow> string \<Rightarrow> 's \<Rightarrow> Addr" where
  "newDialerAddr ResolveIPAddr network addr s =
     (case ResolveIPAddr network addr s of
        Inr netaddr \<Rightarrow> AddrIP netaddr
      | Inl err \<Rightarrow> AddrFallback \<lparr>fa_network = network, fa_addr = addr\<rparr>)"

text \<open>
  \<open>dialWithFallback\<close>. The package variable \<open>noFallback\<close>, \<open>SetTCPOptions\<close> (of this
  package, defined in another file; its error result is discarded by the caller) and
  \<open>net.ResolveIPAddr\<close> are parameters. The debug lines do not change the result, but their arguments \<open>conn.LocalAddr()\<close> and \<open>conn.RemoteAddr()\<close> are
  evaluated, which panics when a dial function returns neither a connection nor an error.
\<close>

definition dialWithFallback ::
  "bool \<Rightarrow> (Conn \<Rightarrow> 's \<Rightarrow> 's) \<Rightarrow> (string \<Rightarrow> string \<Rightarrow> 's \<Rightarrow> error + IPAddr) \<Rightarrow>
   's dialFunc \<Rightarrow> 's dialFunc \<Rightarrow> string \<Rightarrow> string \<Rightarrow> 's \<Rightarrow>
   (panic + Conn option \<times> error option) \<times> 's" where
  "dialWithFallback noFallback SetTCPOptions ResolveIPAddr proxyDialFunc fallbackDialFunc
       network addr s =
     (case proxyDialFunc network addr s of
        ((conn, err), s1) \<Rightarrow>
          if err = None then
            (case conn of
               None \<Rightarrow> (Inl NilDereference, s1)
             | Some c \<Rightarrow>
                 (let s2 = SetTCPOptions c s1
                  in (Inr (Some (DialerConn c (newDialerAddr ResolveIPAddr network addr s2)),
                        None), s2)))
          else if noFallback then (Inr (conn, err), s1)
          else
            (case fallbackDialFunc network addr s1 of
               ((conn', err'), s2) \<Rightarrow>
                 if err' = None then
                   (case conn' of
                      None \<Rightarrow> (Inl NilDereference, s2)
                    | Some c \<Rightarrow> (Inr (conn', err'), SetTCPOptions c s2))
                 else (Inr (conn', err'), s2)))"

text \<open>
  \<open>socksDialerFunction\<close>. \<open>url.URL\<close> with the fields read here, \<open>url.Userinfo\<close> with
  its two accessors, and \<open>proxy.Auth\<close> (fields \<open>User\<close> and \<open>Password\<close>, prefixed here).
  \<open>proxy.SOCKS5\<close> is a parameter, and so is the type \<open>'d\<close> of \<open>proxy.Dialer\<close> values.
\<close>

record Userinfo =
  username :: string
  password :: string
  passwordSet :: bool

definition Username :: "Userinfo \<Rightarrow> string" where
  "Username ui = username ui"

definition Password :: "Userinfo \<Rightarrow> string \<times> bool" where
  "Password ui = (password ui, passwordSet ui)"

record URL =
  Scheme :: string
  User :: "Userinfo option"
  Host :: string

record Auth =
  auth_User :: string
  auth_Password :: string

definition socksDialerFunction ::
  "(string \<Rightarrow> string \<Rightarrow> Auth option \<Rightarrow> 'd \<Rightarrow> error + 'd) \<Rightarrow> URL \<Rightarrow> 'd \<Rightarrow> error + 'd" where
  "socksDialerFunction SOCKS5 u forward =
     (let auth =
        (case User u of
           None \<Rightarrow> None
         | Some ui \<Rightarrow>
             (let a = \<lparr>auth_User = '''', auth_Password = ''''\<rparr>;
                  a = a\<lparr>auth_User := Username ui\<rparr>;
                  a = (case Password ui of (p, ok) \<Rightarrow> if ok then a\<lparr>auth_Password := p\<rparr> else a)
              in Some a))
      in SOCKS5 ''tcp'' (Host u) auth forward)"

text \<open>
  \<open>getDialer\<close>. \<open>os.Getenv\<close> (the empty string for an unset variable), \<open>url.Parse\<close>,
  \<open>proxy.FromURL\<close> and \<open>proxy.NewPerHost\<close> followed by \<open>AddFromString\<close> are parameters.
\<close>

definition getDialer ::
  "(string \<Rightarrow> string) \<Rightarrow> (string \<Rightarrow> error + URL) \<Rightarrow> (URL \<Rightarrow> 'd \<Rightarrow> error + 'd) \<Rightarrow>
   ('d \<Rightarrow> 'd \<Rightarrow> 'd) \<Rightarrow> ('d \<Rightarrow> string \<Rightarrow> 'd) \<Rightarrow> 'd \<Rightarrow> 'd" where
  "getDialer Getenv url_Parse proxy_FromURL NewPerHost AddFromString forward =
     (let allProxy = Getenv ''all_proxy'' in
      if length allProxy = 0 then forward
      else
        (case url_Parse allProxy of
           Inl err \<Rightarrow> forward
         | Inr proxyURL \<Rightarrow>
             (case proxy_FromURL proxyURL forward of
                Inl err \<Rightarrow> forward
              | Inr prxy \<Rightarrow>
                  (let noProxy = Getenv ''no_proxy'' in
                   if length noProxy = 0 then prxy
                   else
                     (let perHost = NewPerHost prxy forward
                      in AddFromString perHost noProxy)))))"

text \<open>
  \<open>dialContextReusePort\<close>. \<open>net.Dialer\<close> with the two fields set here;
  \<open>ReusePortControl\<close> is a function of this package defined in another file, per
  platform, so it is a name only. The registry holds values of type \<open>interface{}\<close>: what
  matters is whether the type assertion to \<open>*net.TCPAddr\<close> holds. \<open>registry.Get\<close>,
  \<open>util.AddressUnspecifiedLess\<close> and \<open>(*net.Dialer).DialContext\<close> are parameters.
\<close>

datatype Control = ReusePortControl

record net_Dialer =
  Control :: "Control option"
  LocalAddr :: "Addr option"

datatype iface = IsTCPAddr TCPAddr | NotTCPAddr

definition tcpAddrLess :: "(TCPAddr \<Rightarrow> TCPAddr \<Rightarrow> bool) \<Rightarrow> iface \<Rightarrow> iface \<Rightarrow> panic + bool" where
  "tcpAddrLess AddressUnspecifiedLess i j =
     (case i of
        NotTCPAddr \<Rightarrow> Inl TypeAssertion
      | IsTCPAddr a \<Rightarrow>
          (case j of
             NotTCPAddr \<Rightarrow> Inl TypeAssertion
           | IsTCPAddr b \<Rightarrow> Inr (AddressUnspecifiedLess a b)))"

definition dialContextReusePort ::
  "(TCPAddr \<Rightarrow> TCPAddr \<Rightarrow> bool) \<Rightarrow>
   (string \<Rightarrow> (iface \<Rightarrow> iface \<Rightarrow> panic + bool) \<Rightarrow> 's \<Rightarrow> iface option) \<Rightarrow>
   (net_Dialer \<Rightarrow> 'ctx \<Rightarrow> 's dialFunc) \<Rightarrow> 'ctx \<Rightarrow> string \<Rightarrow> string \<Rightarrow> 's \<Rightarrow>
   (panic + Conn option \<times> error option) \<times> 's" where
  "dialContextReusePort AddressUnspecifiedLess registry_Get DialContext ctx network addr s =
     (let dialer = \<lparr>Control = Some ReusePortControl, LocalAddr = None\<rparr>;
          localAddrInterface = registry_Get network (tcpAddrLess AddressUnspecifiedLess) s
      in case (case localAddrInterface of
                 None \<Rightarrow> Inr dialer
               | Some NotTCPAddr \<Rightarrow> Inl TypeAssertion
               | Some (IsTCPAddr a) \<Rightarrow> Inr (dialer\<lparr>LocalAddr := Some (AddrTCP a)\<rparr>)) of
           Inl p \<Rightarrow> (Inl p, s)
         | Inr dialer \<Rightarrow>
             (case DialContext dialer ctx network addr s of
                (r, s') \<Rightarrow> (Inr r, s')))"

section \<open>lib/sha256/sha256.go\<close>

text \<open>
  A \<open>float64\<close> as far as Go's comparisons can tell its values apart: not-a-number, the
  two infinities and the finite values (the two zeros compare equal and are one value
  here). \<open>f64_eq\<close> is \<open>==\<close>, which a \<open>switch\<close> on a value uses, \<open>f64_gt\<close> is \<open>>\<close>, and
  \<open>math_Max\<close> is \<open>math.Max\<close> with its special cases in the order of the library.
\<close>

datatype float64 = NaN | NegInf | Finite real | PosInf

fun f64_eq :: "float64 \<Rightarrow> float64 \<Rightarrow> bool" where
  "f64_eq NaN y = False"
| "f64_eq x NaN = False"
| "f64_eq x y = (x = y)"

fun f64_gt :: "float64 \<Rightarrow> float64 \<Rightarrow> bool" where
  "f64_gt NaN y = False"
| "f64_gt x NaN = False"
| "f64_gt x PosInf = False"
| "f64_gt PosInf y = True"
| "f64_gt NegInf y = False"
| "f64_gt x NegInf = True"
| "f64_gt (Finite a) (Finite b) = (a > b)"

definition math_Max :: "float64 \<Rightarrow> float64 \<Rightarrow> float64" where
  "math_Max x y =
     (if x = PosInf \<or> y = PosInf then PosInf
      else if x = NaN \<or> y = NaN then NaN
      else if f64_gt x y then x
      else y)"

definition benchmarkingIterations :: nat where
  "benchmarkingIterations = 3"

definition defaultImpl :: string where
  "defaultImpl = ''crypto/sha256''"

definition minioImpl :: string where
  "minioImpl = ''minio/sha256-simd''"

definition minioAvx512Impl :: string where
  "minioAvx512Impl = ''minio/sha256-avx512''"

text \<open>
  The function values that the variables \<open>New\<close> and \<open>Sum256\<close> hold: those of
  crypto/sha256, those of minio/sha256-simd, and \<open>minioAvx512New\<close> and
  \<open>minioAvx512Sum256\<close> of this package. The package variables are one record; an AVX-512
  server is known by a number.
\<close>

datatype hashFn = CryptoSha256 | MinioSha256 | MinioAvx512

record vars =
  New :: hashFn
  Sum256 :: hashFn
  selectedImpl :: string
  cryptoPerf :: float64
  minioPerf :: float64
  minioAvx512Perf :: float64
  avx512Servers :: "nat list"

record CPU =
  AVX512F :: bool
  AVX512DQ :: bool
  AVX512BW :: bool
  AVX512VL :: bool

definition selectMinio :: "vars \<Rightarrow> vars" where
  "selectMinio v = v\<lparr>New := MinioSha256, Sum256 := MinioSha256, selectedImpl := minioImpl\<rparr>"

definition selectMinioAvx512 :: "vars \<Rightarrow> vars" where
  "selectMinioAvx512 v =
     v\<lparr>New := MinioAvx512, Sum256 := MinioAvx512, selectedImpl := minioAvx512Impl\<rparr>"

text \<open>
  \<open>benchmark\<close>. \<open>cpuBenchOnce\<close> measures with goroutines against the clock; what it
  returns for a hash constructor is a parameter, a measurement taken in the world \<open>'w\<close>.
  The loop counts the iterations that remain.
\<close>

type_synonym 'w bench = "hashFn \<Rightarrow> nat list \<Rightarrow> 'w \<Rightarrow> float64 \<times> 'w"

fun benchmark_loop :: "'w bench \<Rightarrow> nat \<Rightarrow> vars \<Rightarrow> 'w \<Rightarrow> vars \<times> 'w" where
  "benchmark_loop cpuBenchOnce 0 v w = (v, w)"
| "benchmark_loop cpuBenchOnce (Suc n) v w =
     (case cpuBenchOnce CryptoSha256 (avx512Servers v) w of
        (perf, w1) \<Rightarrow>
          (let v1 = (if f64_gt perf (cryptoPerf v) then v\<lparr>cryptoPerf := perf\<rparr> else v)
           in case cpuBenchOnce MinioSha256 (avx512Servers v1) w1 of
                (perf, w2) \<Rightarrow>
                  (let v2 = (if f64_gt perf (minioPerf v1) then v1\<lparr>minioPerf := perf\<rparr> else v1)
                   in if length (avx512Servers v2) > 0 then
                        (case cpuBenchOnce MinioAvx512 (avx512Servers v2) w2 of
                           (perf, w3) \<Rightarrow>
                             (let v3 = (if f64_gt perf (minioAvx512Perf v2)
                                        then v2\<lparr>minioAvx512Perf := perf\<rparr> else v2)
                              in benchmark_loop cpuBenchOnce n v3 w3))
                      else benchmark_loop cpuBenchOnce n v2 w2)))"

definition benchmark :: "'w bench \<Rightarrow> vars \<Rightarrow> 'w \<Rightarrow> vars \<times> 'w" where
  "benchmark cpuBenchOnce v w = benchmark_loop cpuBenchOnce benchmarkingIterations v w"

text \<open>
  \<open>verifyCorrectness\<close>. What an implementation computes for the test input, as a
  hexadecimal string, is a parameter for each of the two variables. \<open>minioAvx512New\<close>
  takes a random index modulo the number of servers, which panics when there is none.
\<close>

definition verifyCorrectness ::
  "(hashFn \<Rightarrow> string \<Rightarrow> string) \<Rightarrow> (hashFn \<Rightarrow> string \<Rightarrow> string) \<Rightarrow> vars \<Rightarrow> panic option" where
  "verifyCorrectness hexNew hexSum256 v =
     (let correct = ''87f6cfd24131724c6ec43495594c5c22abc7d2b86bcc134bc6f10b7ec3dda4ee'';
          input = ''Syncthing Magic Testing Value'' @ [CHR 0x0A]
      in if New v = MinioAvx512 \<and> length (avx512Servers v) = 0 then Some DivideByZero
         else if hexNew (New v) input \<noteq> correct then Some Sha256Broken
         else if Sum256 v = MinioAvx512 \<and> length (avx512Servers v) = 0 then Some DivideByZero
         else if hexSum256 (Sum256 v) input \<noteq> correct then Some Sha256Broken
         else None)"

text \<open>
  \<open>SelectAlgo\<close>. The CPU flags, \<open>runtime.NumCPU\<close>, \<open>minioSha256.NewAvx512Server\<close> and
  \<open>os.Getenv\<close> are parameters. The package variables keep what was assigned when
  \<open>verifyCorrectness\<close> panics, so the result is the panic, if any, next to the variables.
\<close>

fun add_servers :: "('w \<Rightarrow> nat \<times> 'w) \<Rightarrow> nat \<Rightarrow> vars \<Rightarrow> 'w \<Rightarrow> vars \<times> 'w" where
  "add_servers NewAvx512Server 0 v w = (v, w)"
| "add_servers NewAvx512Server (Suc n) v w =
     (case NewAvx512Server w of
        (srv, w') \<Rightarrow>
          add_servers NewAvx512Server n (v\<lparr>avx512Servers := avx512Servers v @ [srv]\<rparr>) w')"

definition SelectAlgo ::
  "CPU \<Rightarrow> nat \<Rightarrow> ('w \<Rightarrow> nat \<times> 'w) \<Rightarrow> (string \<Rightarrow> string) \<Rightarrow> 'w bench \<Rightarrow>
   (hashFn \<Rightarrow> string \<Rightarrow> string) \<Rightarrow> (hashFn \<Rightarrow> string \<Rightarrow> string) \<Rightarrow> vars \<Rightarrow> 'w \<Rightarrow>
   panic option \<times> vars \<times> 'w" where
  "SelectAlgo cpu NumCPU NewAvx512Server Getenv cpuBenchOnce hexNew hexSum256 v w =
     (case (if AVX512F cpu \<and> AVX512DQ cpu \<and> AVX512BW cpu \<and> AVX512VL cpu
            then add_servers NewAvx512Server NumCPU v w else (v, w)) of
        (v1, w1) \<Rightarrow>
          (case (let sthashing = Getenv ''STHASHING'' in
                 if sthashing = '''' then
                   (case benchmark cpuBenchOnce v1 w1 of
                      (v2, w2) \<Rightarrow>
                        (let bestPerf =
                               math_Max (math_Max (minioPerf v2) (minioAvx512Perf v2))
                                 (cryptoPerf v2)
                         in if f64_eq bestPerf (minioPerf v2) then (selectMinio v2, w2)
                            else if f64_eq bestPerf (minioAvx512Perf v2)
                              then (selectMinioAvx512 v2, w2)
                            else if f64_eq bestPerf (cryptoPerf v2) then (v2, w2)
                            else (v2, w2)))
                 else if sthashing = ''minio'' then (selectMinio v1, w1)
                 else if sthashing = ''minio-avx512'' then (selectMinioAvx512 v1, w1)
                 else (v1, w1)) of
             (v3, w3) \<Rightarrow> (verifyCorrectness hexNew hexSum256 v3, v3, w3)))"

text \<open>
  The package variables as their declarations initialise them: the implementation of
  crypto/sha256 selected, every rate zero, no AVX-512 server.
\<close>

definition initial_vars :: vars where
  "initial_vars =
     \<lparr>New = CryptoSha256, Sum256 = CryptoSha256, selectedImpl = defaultImpl,
      cryptoPerf = Finite 0, minioPerf = Finite 0, minioAvx512Perf = Finite 0,
      avx512Servers = []\<rparr>"

section \<open>Sample inputs\<close>

text \<open>
  A small world for running the dial functions on concrete inputs: the dial attempts made
  so far, by the name of the dialer, and the connections whose TCP options were set.
\<close>

record world =
  attempts :: "string list"
  tuned :: "Conn list"

definition world0 :: world where
  "world0 = \<lparr>attempts = [], tuned = []\<rparr>"

definition sample_conn :: Conn where
  "sample_conn =
     NetConn 7 (AddrTCP (TCPAddr ''192.168.1.5:51000''))
       (AddrTCP (TCPAddr ''93.184.216.34:22000''))"

definition sample_refuse :: "string \<Rightarrow> world dialFunc" where
  "sample_refuse who network addr w =
     ((None, Some (Error ''connection refused'')), w\<lparr>attempts := attempts w @ [who]\<rparr>)"

definition sample_accept :: "string \<Rightarrow> world dialFunc" where
  "sample_accept who network addr w =
     ((Some sample_conn, None), w\<lparr>attempts := attempts w @ [who]\<rparr>)"


definition sample_tune :: "Conn \<Rightarrow> world \<Rightarrow> world" where
  "sample_tune c w = w\<lparr>tuned := tuned w @ [c]\<rparr>"

definition sample_resolve :: "string \<Rightarrow> string \<Rightarrow> world \<Rightarrow> error + IPAddr" where
  "sample_resolve network addr w =
     (if network \<in> {''ip'', ''ip4'', ''ip6''} then Inr (IPAddr addr)
      else Inl (Error ''unknown network''))"

text \<open>
  An environment in which only \<open>all_proxy\<close> may be set, a URL parser that knows two URLs,
  a proxy constructor that knows the scheme \<open>socks\<close> (dialers are named by strings), and
  a SOCKS5 constructor that rejects an empty host.
\<close>

definition sample_env :: "string \<Rightarrow> string \<Rightarrow> string" where
  "sample_env proxy name = (if name = ''all_proxy'' then proxy else '''')"

definition sample_parse :: "string \<Rightarrow> error + URL" where
  "sample_parse raw =
     (if raw = ''socks://127.0.0.1:1080''
        then Inr \<lparr>Scheme = ''socks'', User = None, Host = ''127.0.0.1:1080''\<rparr>
      else if raw = ''gopher://127.0.0.1:70''
        then Inr \<lparr>Scheme = ''gopher'', User = None, Host = ''127.0.0.1:70''\<rparr>
      else Inl (Error ''invalid URL''))"

definition sample_FromURL :: "URL \<Rightarrow> string \<Rightarrow> error + string" where
  "sample_FromURL u forward =
     (if Scheme u = ''socks'' then Inr (''socks5 '' @ Host u @ '' over '' @ forward)
      else Inl (Error ''unknown scheme''))"


definition sample_NewPerHost :: "'d \<Rightarrow> 'd \<Rightarrow> 'd" where
  "sample_NewPerHost prxy forward = prxy"

definition sample_AddFromString :: "'d \<Rightarrow> string \<Rightarrow> 'd" where
  "sample_AddFromString perHost hosts = perHost"

definition sample_SOCKS5 :: "string \<Rightarrow> string \<Rightarrow> Auth option \<Rightarrow> string \<Rightarrow> error + string" where
  "sample_SOCKS5 network address auth forward =
     (if address = '''' then Inl (Error ''missing host'')
      else Inr (''socks5 '' @ address @ '' over '' @ forward))"

text \<open>
  A registry with one TCP listener address or with none, a \<open>DialContext\<close> that succeeds,
  and a benchmark in which crypto/sha256 and minio/sha256-simd tie.
\<close>

definition sample_registry :: "iface option \<Rightarrow> string \<Rightarrow> (iface \<Rightarrow> iface \<Rightarrow> panic + bool) \<Rightarrow> world \<Rightarrow> iface option" where
  "sample_registry entry network preferred w = entry"

definition sample_less :: "TCPAddr \<Rightarrow> TCPAddr \<Rightarrow> bool" where
  "sample_less a b = (a = TCPAddr ''0.0.0.0:22000'' \<and> b \<noteq> a)"

definition sample_DialContext :: "net_Dialer \<Rightarrow> unit \<Rightarrow> world dialFunc" where
  "sample_DialContext dialer ctx network addr w = sample_accept ''direct'' network addr w"

definition sample_bench :: "unit bench" where
  "sample_bench newFn servers w =
     (case newFn of
        CryptoSha256 \<Rightarrow> (Finite 250, w)
      | MinioSha256 \<Rightarrow> (Finite 250, w)
      | MinioAvx512 \<Rightarrow> (Finite 900, w))"

definition sample_hex :: "hashFn \<Rightarrow> string \<Rightarrow> string" where
  "sample_hex fn input = ''87f6cfd24131724c6ec43495594c5c22abc7d2b86bcc134bc6f10b7ec3dda4ee''"

definition sample_cpu :: CPU where
  "sample_cpu = \<lparr>AVX512F = False, AVX512DQ = False, AVX512BW = False, AVX512VL = False\<rparr>"

section \<open>Properties of lib/dialer/internal.go\<close>

text \<open>
  C1, as amended. When the proxy-path dial fails and fallback is enabled, a successful
  direct dial is passed to \<open>SetTCPOptions\<close> and the connection of the direct dialer is
  returned as it is: it is not wrapped in \<open>dialerConn\<close>, so its \<open>RemoteAddr()\<close> is the
  one of the underlying connection.
\<close>

theorem dialWithFallback_fallback_success:
  "snd (fst (proxyDialFunc network addr s)) \<noteq> None \<Longrightarrow>
   fallbackDialFunc network addr (snd (proxyDialFunc network addr s)) = ((Some c, None), s2) \<Longrightarrow>
   dialWithFallback False SetTCPOptions ResolveIPAddr proxyDialFunc fallbackDialFunc
       network addr s =
     (Inr (Some c, None), SetTCPOptions c s2)"
  by (auto simp add: dialWithFallback_def split: prod.splits)

theorem dialWithFallback_fallback_success_witness:
  "dialWithFallback False sample_tune sample_resolve (sample_refuse ''proxy'')
       (sample_accept ''direct'') ''tcp'' ''example.com:22000'' world0 =
     (Inr (Some sample_conn, None),
      \<lparr>attempts = [''proxy'', ''direct''], tuned = [sample_conn]\<rparr>)"
proof -
  have h1: "snd (fst (sample_refuse ''proxy'' ''tcp'' ''example.com:22000'' world0)) \<noteq> None"
    by (simp add: sample_refuse_def)
  have h2: "sample_accept ''direct'' ''tcp'' ''example.com:22000''
              (snd (sample_refuse ''proxy'' ''tcp'' ''example.com:22000'' world0)) =
            ((Some sample_conn, None), \<lparr>attempts = [''proxy'', ''direct''], tuned = []\<rparr>)"
    by (simp add: sample_refuse_def sample_accept_def world0_def)
  show ?thesis
    using dialWithFallback_fallback_success [where proxyDialFunc = "sample_refuse ''proxy''"
        and fallbackDialFunc = "sample_accept ''direct''" and network = "''tcp''"
        and addr = "''example.com:22000''" and s = world0 and c = sample_conn
        and SetTCPOptions = sample_tune and ResolveIPAddr = sample_resolve, OF h1 h2]
    by (simp add: sample_tune_def)
qed

text \<open>
  C1 as stated fails: with a refusing proxy and a direct dial to \<open>example.com:22000\<close>
  that succeeds, the returned connection is the one of the direct dialer, and its remote
  address is the resolved TCP address, not the address built from the request.
\<close>

theorem dialWithFallback_fallback_not_wrapped:
  "fst (dialWithFallback False sample_tune sample_resolve (sample_refuse ''proxy'')
          (sample_accept ''direct'') ''tcp'' ''example.com:22000'' world0) =
     Inr (Some sample_conn, None) \<and>
   RemoteAddr sample_conn = AddrTCP (TCPAddr ''93.184.216.34:22000'') \<and>
   newDialerAddr sample_resolve ''tcp'' ''example.com:22000'' world0 =
     AddrFallback \<lparr>fa_network = ''tcp'', fa_addr = ''example.com:22000''\<rparr> \<and>
   RemoteAddr sample_conn \<noteq> newDialerAddr sample_resolve ''tcp'' ''example.com:22000'' world0"
  by (simp add: dialWithFallback_def sample_refuse_def sample_accept_def sample_tune_def
      sample_resolve_def sample_conn_def world0_def newDialerAddr_def)

text \<open>
  C2. The \<open>RemoteAddr()\<close> of a \<open>dialerConn\<close> that holds \<open>newDialerAddr(network, addr)\<close>
  is that address, whatever the connection inside is; and this is the connection that
  \<open>dialWithFallback\<close> returns when the proxy-path dial succeeds.
\<close>

theorem dialerConn_RemoteAddr:
  "RemoteAddr (DialerConn c (newDialerAddr ResolveIPAddr network addr s)) =
     newDialerAddr ResolveIPAddr network addr s \<and>
   (\<forall>c' s1. proxyDialFunc network addr s = ((Some c', None), s1) \<longrightarrow>
      (\<exists>conn s'.
         dialWithFallback noFallback SetTCPOptions ResolveIPAddr proxyDialFunc fallbackDialFunc
             network addr s =
           (Inr (Some conn, None), s') \<and>
         RemoteAddr conn = newDialerAddr ResolveIPAddr network addr s'))"
  by (simp add: dialWithFallback_def Let_def)

theorem dialerConn_RemoteAddr_witness:
  "sample_accept ''proxy'' ''tcp'' ''example.com:22000'' world0 =
     ((Some sample_conn, None), \<lparr>attempts = [''proxy''], tuned = []\<rparr>) \<and>
   RemoteAddr (DialerConn sample_conn
       (newDialerAddr sample_resolve ''tcp'' ''example.com:22000'' world0)) =
     AddrFallback \<lparr>fa_network = ''tcp'', fa_addr = ''example.com:22000''\<rparr> \<and>
   (\<exists>conn s'.
      dialWithFallback False sample_tune sample_resolve (sample_accept ''proxy'')
          (sample_refuse ''direct'') ''tcp'' ''example.com:22000'' world0 =
        (Inr (Some conn, None), s') \<and>
      RemoteAddr conn = AddrFallback \<lparr>fa_network = ''tcp'', fa_addr = ''example.com:22000''\<rparr>)"
proof -
  have h: "sample_accept ''proxy'' ''tcp'' ''example.com:22000'' world0 =
     ((Some sample_conn, None), \<lparr>attempts = [''proxy''], tuned = []\<rparr>)"
    by (simp add: sample_accept_def world0_def)
  have r: "\<And>w. newDialerAddr sample_resolve ''tcp'' ''example.com:22000'' w =
     AddrFallback \<lparr>fa_network = ''tcp'', fa_addr = ''example.com:22000''\<rparr>"
    by (simp add: newDialerAddr_def sample_resolve_def)
  show ?thesis
    using h r dialerConn_RemoteAddr [of sample_conn sample_resolve "''tcp''"
        "''example.com:22000''" world0 "sample_accept ''proxy''" False sample_tune
        "sample_refuse ''direct''"]
    by simp
qed

text \<open>
  C3. When the proxy-path dial fails and \<open>noFallback\<close> is set, \<open>dialWithFallback\<close>
  returns what the proxy-path dial returned, and the world is the one that dial left: the
  fallback dial function does not occur in the outcome, it is not invoked.
\<close>

theorem dialWithFallback_noFallback:
  "snd (fst (proxyDialFunc network addr s)) \<noteq> None \<Longrightarrow>
   dialWithFallback True SetTCPOptions ResolveIPAddr proxyDialFunc fallbackDialFunc
       network addr s =
     (Inr (fst (proxyDialFunc network addr s)), snd (proxyDialFunc network addr s))"
  by (auto simp add: dialWithFallback_def split: prod.splits)

theorem dialWithFallback_noFallback_witness:
  "snd (fst (sample_refuse ''proxy'' ''tcp'' ''example.com:22000'' world0)) \<noteq> None \<and>
   dialWithFallback True sample_tune sample_resolve (sample_refuse ''proxy'')
       (sample_accept ''direct'') ''tcp'' ''example.com:22000'' world0 =
     (Inr (None, Some (Error ''connection refused'')),
      \<lparr>attempts = [''proxy''], tuned = []\<rparr>)"
proof -
  have h: "snd (fst (sample_refuse ''proxy'' ''tcp'' ''example.com:22000'' world0)) \<noteq> None"
    by (simp add: sample_refuse_def)
  show ?thesis
    using h dialWithFallback_noFallback [where proxyDialFunc = "sample_refuse ''proxy''"
        and network = "''tcp''" and addr = "''example.com:22000''" and s = world0
        and SetTCPOptions = sample_tune and ResolveIPAddr = sample_resolve
        and fallbackDialFunc = "sample_accept ''direct''", OF h]
    by (simp add: sample_refuse_def world0_def)
qed

text \<open>
  C4. \<open>getDialer\<close> returns a dialer on every input, and it returns \<open>forward\<close> itself when
  \<open>all_proxy\<close> is empty, when the URL does not parse, and when the proxy constructor
  rejects the URL.
\<close>

theorem getDialer_degrades_to_forward:
  "(Getenv ''all_proxy'' = [] \<longrightarrow>
      getDialer Getenv url_Parse proxy_FromURL NewPerHost AddFromString forward = forward) \<and>
   (\<forall>err. url_Parse (Getenv ''all_proxy'') = Inl err \<longrightarrow>
      getDialer Getenv url_Parse proxy_FromURL NewPerHost AddFromString forward = forward) \<and>
   (\<forall>u err. url_Parse (Getenv ''all_proxy'') = Inr u \<longrightarrow>
      proxy_FromURL u forward = Inl err \<longrightarrow>
      getDialer Getenv url_Parse proxy_FromURL NewPerHost AddFromString forward = forward)"
  by (auto simp add: getDialer_def Let_def)

theorem getDialer_degrades_to_forward_witness:
  "sample_env '''' ''all_proxy'' = [] \<and>
   getDialer (sample_env '''') sample_parse sample_FromURL sample_NewPerHost
       sample_AddFromString ''direct'' = ''direct'' \<and>
   sample_parse (sample_env ''://'' ''all_proxy'') = Inl (Error ''invalid URL'') \<and>
   getDialer (sample_env ''://'') sample_parse sample_FromURL sample_NewPerHost
       sample_AddFromString ''direct'' = ''direct'' \<and>
   sample_parse (sample_env ''gopher://127.0.0.1:70'' ''all_proxy'') =
     Inr \<lparr>Scheme = ''gopher'', User = None, Host = ''127.0.0.1:70''\<rparr> \<and>
   sample_FromURL \<lparr>Scheme = ''gopher'', User = None, Host = ''127.0.0.1:70''\<rparr> ''direct'' =
     Inl (Error ''unknown scheme'') \<and>
   getDialer (sample_env ''gopher://127.0.0.1:70'') sample_parse sample_FromURL
       sample_NewPerHost sample_AddFromString ''direct'' = ''direct''"
proof -
  have a: "sample_env '''' ''all_proxy'' = []"
    by (simp add: sample_env_def)
  have b: "sample_parse (sample_env ''://'' ''all_proxy'') = Inl (Error ''invalid URL'')"
    by (simp add: sample_env_def sample_parse_def)
  have c: "sample_parse (sample_env ''gopher://127.0.0.1:70'' ''all_proxy'') =
      Inr \<lparr>Scheme = ''gopher'', User = None, Host = ''127.0.0.1:70''\<rparr>"
    by (simp add: sample_env_def sample_parse_def)
  have d: "sample_FromURL \<lparr>Scheme = ''gopher'', User = None, Host = ''127.0.0.1:70''\<rparr>
      ''direct'' = Inl (Error ''unknown scheme'')"
    by (simp add: sample_FromURL_def)
  show ?thesis
    using a b c d
      getDialer_degrades_to_forward [of "sample_env ''''" sample_parse sample_FromURL
        sample_NewPerHost sample_AddFromString "''direct''"]
      getDialer_degrades_to_forward [of "sample_env ''://''" sample_parse sample_FromURL
        sample_NewPerHost sample_AddFromString "''direct''"]
      getDialer_degrades_to_forward [of "sample_env ''gopher://127.0.0.1:70''" sample_parse
        sample_FromURL sample_NewPerHost sample_AddFromString "''direct''"]
    by simp
qed

text \<open>
  C5. One call of \<open>dialWithFallback\<close> makes one proxy-path dial, followed by one direct
  dial exactly when the proxy-path dial failed and fallback is enabled, and no dial after
  that. The dial attempts are read off the world by any trace to which a proxy-path dial
  adds \<open>P\<close>, a direct dial adds \<open>F\<close>, and which \<open>SetTCPOptions\<close> leaves alone.
\<close>

theorem dialWithFallback_at_most_two_dials:
  assumes "\<And>n a s. trace (snd (proxyDialFunc n a s)) = trace s @ [P]"
    and "\<And>n a s. trace (snd (fallbackDialFunc n a s)) = trace s @ [F]"
    and "\<And>c s. trace (SetTCPOptions c s) = trace s"
  shows "trace (snd (dialWithFallback noFallback SetTCPOptions ResolveIPAddr proxyDialFunc
             fallbackDialFunc network addr s)) =
           trace s @ (if snd (fst (proxyDialFunc network addr s)) \<noteq> None \<and> \<not> noFallback
                      then [P, F] else [P]) \<and>
         length (trace (snd (dialWithFallback noFallback SetTCPOptions ResolveIPAddr
             proxyDialFunc fallbackDialFunc network addr s))) \<le> length (trace s) + 2"
proof -
  obtain c1 e1 s1 where p1: "proxyDialFunc network addr s = ((c1, e1), s1)"
    by (metis prod.exhaust)
  obtain c2 e2 s2 where f1: "fallbackDialFunc network addr s1 = ((c2, e2), s2)"
    by (metis prod.exhaust)
  have t1: "trace s1 = trace s @ [P]"
    using assms(1) [of network addr s] p1 by simp
  have t2: "trace s2 = trace s @ [P, F]"
    using assms(2) [of network addr s1] f1 t1 by simp
  have eq: "trace (snd (dialWithFallback noFallback SetTCPOptions ResolveIPAddr proxyDialFunc
             fallbackDialFunc network addr s)) =
           trace s @ (if snd (fst (proxyDialFunc network addr s)) \<noteq> None \<and> \<not> noFallback
                      then [P, F] else [P])"
    using p1 f1 t1 t2
    by (cases e1; cases c1; cases noFallback; cases e2; cases c2)
      (simp_all add: dialWithFallback_def Let_def assms(3))
  have "length (trace s @ (if snd (fst (proxyDialFunc network addr s)) \<noteq> None \<and> \<not> noFallback
                      then [P, F] else [P])) \<le> length (trace s) + 2"
    by simp
  with eq show ?thesis
    by (simp only:)
qed

theorem dialWithFallback_at_most_two_dials_witness:
  "attempts (snd (dialWithFallback False sample_tune sample_resolve (sample_refuse ''proxy'')
       (sample_refuse ''direct'') ''tcp'' ''example.com:22000'' world0)) =
     [''proxy'', ''direct''] \<and>
   attempts (snd (dialWithFallback True sample_tune sample_resolve (sample_refuse ''proxy'')
       (sample_refuse ''direct'') ''tcp'' ''example.com:22000'' world0)) = [''proxy'']"
proof -
  have h1: "\<And>n a s. attempts (snd (sample_refuse ''proxy'' n a s)) = attempts s @ [''proxy'']"
    by (simp add: sample_refuse_def)
  have h2: "\<And>n a s. attempts (snd (sample_refuse ''direct'' n a s)) = attempts s @ [''direct'']"
    by (simp add: sample_refuse_def)
  have h3: "\<And>c s. attempts (sample_tune c s) = attempts s"
    by (simp add: sample_tune_def)
  have e: "snd (fst (sample_refuse ''proxy'' ''tcp'' ''example.com:22000'' world0)) \<noteq> None"
    by (simp add: sample_refuse_def)
  show ?thesis
    using e
      dialWithFallback_at_most_two_dials [where trace = attempts
        and proxyDialFunc = "sample_refuse ''proxy''" and P = "''proxy''"
        and fallbackDialFunc = "sample_refuse ''direct''" and F = "''direct''"
        and SetTCPOptions = sample_tune and noFallback = False
        and ResolveIPAddr = sample_resolve and network = "''tcp''"
        and addr = "''example.com:22000''" and s = world0, OF h1 h2 h3]
      dialWithFallback_at_most_two_dials [where trace = attempts
        and proxyDialFunc = "sample_refuse ''proxy''" and P = "''proxy''"
        and fallbackDialFunc = "sample_refuse ''direct''" and F = "''direct''"
        and SetTCPOptions = sample_tune and noFallback = True
        and ResolveIPAddr = sample_resolve and network = "''tcp''"
        and addr = "''example.com:22000''" and s = world0, OF h1 h2 h3]
    by (simp add: world0_def)
qed

text \<open>
  C6. \<open>newDialerAddr\<close> has no failure outcome: when the resolution succeeds it returns the
  resolved address, and when the resolution fails it returns an address whose
  \<open>Network()\<close> is \<open>network\<close> and whose \<open>String()\<close> is \<open>addr\<close>.
\<close>

theorem newDialerAddr_total:
  "(\<forall>netaddr. ResolveIPAddr network addr s = Inr netaddr \<longrightarrow>
      newDialerAddr ResolveIPAddr network addr s = AddrIP netaddr) \<and>
   (\<forall>err. ResolveIPAddr network addr s = Inl err \<longrightarrow>
      newDialerAddr ResolveIPAddr network addr s =
        AddrFallback \<lparr>fa_network = network, fa_addr = addr\<rparr> \<and>
      Network (newDialerAddr ResolveIPAddr network addr s) = network \<and>
      String (newDialerAddr ResolveIPAddr network addr s) = addr)"
  by (simp add: newDialerAddr_def fallbackAddr_Network_def fallbackAddr_String_def)

theorem newDialerAddr_total_witness:
  "sample_resolve ''ip4'' ''10.1.2.3'' world0 = Inr (IPAddr ''10.1.2.3'') \<and>
   newDialerAddr sample_resolve ''ip4'' ''10.1.2.3'' world0 = AddrIP (IPAddr ''10.1.2.3'') \<and>
   sample_resolve ''tcp'' ''example.com:22000'' world0 = Inl (Error ''unknown network'') \<and>
   Network (newDialerAddr sample_resolve ''tcp'' ''example.com:22000'' world0) = ''tcp'' \<and>
   String (newDialerAddr sample_resolve ''tcp'' ''example.com:22000'' world0) =
     ''example.com:22000''"
proof -
  have a: "sample_resolve ''ip4'' ''10.1.2.3'' world0 = Inr (IPAddr ''10.1.2.3'')"
    by (simp add: sample_resolve_def)
  have b: "sample_resolve ''tcp'' ''example.com:22000'' world0 = Inl (Error ''unknown network'')"
    by (simp add: sample_resolve_def)
  show ?thesis
    using a b
      newDialerAddr_total [of sample_resolve "''ip4''" "''10.1.2.3''" world0]
      newDialerAddr_total [of sample_resolve "''tcp''" "''example.com:22000''" world0]
    by (simp add: fallbackAddr_Network_def fallbackAddr_String_def)
qed




text \<open>
  C8. \<open>dialContextReusePort\<close> dials once, with a dialer whose \<open>Control\<close> is
  \<open>ReusePortControl\<close>: its \<open>LocalAddr\<close> is the TCP address that the registry returns for
  the network, and it is unset when the registry returns none. The outcome and the world
  are those of that one \<open>DialContext\<close> call on the world at entry.
\<close>

theorem dialContextReusePort_one_dial:
  "(\<forall>a. registry_Get network (tcpAddrLess AddressUnspecifiedLess) s = Some (IsTCPAddr a) \<longrightarrow>
      dialContextReusePort AddressUnspecifiedLess registry_Get DialContext ctx network addr s =
        (Inr (fst (DialContext
                \<lparr>Control = Some ReusePortControl, LocalAddr = Some (AddrTCP a)\<rparr>
                ctx network addr s)),
         snd (DialContext
                \<lparr>Control = Some ReusePortControl, LocalAddr = Some (AddrTCP a)\<rparr>
                ctx network addr s))) \<and>
   (registry_Get network (tcpAddrLess AddressUnspecifiedLess) s = None \<longrightarrow>
      dialContextReusePort AddressUnspecifiedLess registry_Get DialContext ctx network addr s =
        (Inr (fst (DialContext \<lparr>Control = Some ReusePortControl, LocalAddr = None\<rparr>
                ctx network addr s)),
         snd (DialContext \<lparr>Control = Some ReusePortControl, LocalAddr = None\<rparr>
                ctx network addr s)))"
  by (simp add: dialContextReusePort_def Let_def split: prod.splits)

theorem dialContextReusePort_one_dial_witness:
  "sample_registry (Some (IsTCPAddr (TCPAddr ''0.0.0.0:22000''))) ''tcp''
       (tcpAddrLess sample_less) world0 =
     Some (IsTCPAddr (TCPAddr ''0.0.0.0:22000'')) \<and>
   dialContextReusePort sample_less
       (sample_registry (Some (IsTCPAddr (TCPAddr ''0.0.0.0:22000'')))) sample_DialContext ()
       ''tcp'' ''example.com:22000'' world0 =
     (Inr (fst (sample_DialContext
             \<lparr>Control = Some ReusePortControl,
                LocalAddr = Some (AddrTCP (TCPAddr ''0.0.0.0:22000''))\<rparr>
             () ''tcp'' ''example.com:22000'' world0)),
      \<lparr>attempts = [''direct''], tuned = []\<rparr>) \<and>
   sample_registry None ''tcp'' (tcpAddrLess sample_less) world0 = None \<and>
   dialContextReusePort sample_less (sample_registry None) sample_DialContext ()
       ''tcp'' ''example.com:22000'' world0 =
     (Inr (fst (sample_DialContext \<lparr>Control = Some ReusePortControl, LocalAddr = None\<rparr>
             () ''tcp'' ''example.com:22000'' world0)),
      \<lparr>attempts = [''direct''], tuned = []\<rparr>)"
proof -
  have a: "sample_registry (Some (IsTCPAddr (TCPAddr ''0.0.0.0:22000''))) ''tcp''
       (tcpAddrLess sample_less) world0 =
     Some (IsTCPAddr (TCPAddr ''0.0.0.0:22000''))"
    by (simp add: sample_registry_def)
  have b: "sample_registry None ''tcp'' (tcpAddrLess sample_less) world0 = None"
    by (simp add: sample_registry_def)
  have d: "\<And>dialer. snd (sample_DialContext dialer () ''tcp'' ''example.com:22000'' world0) =
      \<lparr>attempts = [''direct''], tuned = []\<rparr>"
    by (simp add: sample_DialContext_def sample_accept_def world0_def)
  show ?thesis
    using a b d
      dialContextReusePort_one_dial [where registry_Get =
          "sample_registry (Some (IsTCPAddr (TCPAddr ''0.0.0.0:22000'')))"
        and AddressUnspecifiedLess = sample_less and DialContext = sample_DialContext
        and ctx = "()" and network = "''tcp''" and addr = "''example.com:22000''"
        and s = world0]
      dialContextReusePort_one_dial [where registry_Get = "sample_registry None"
        and AddressUnspecifiedLess = sample_less and DialContext = sample_DialContext
        and ctx = "()" and network = "''tcp''" and addr = "''example.com:22000''"
        and s = world0]
    by simp
qed

text \<open>
  C9. \<open>socksDialerFunction\<close> calls \<open>proxy.SOCKS5\<close> on \<open>tcp\<close> and the host of the URL:
  with no authentication when the URL has no user-info, and otherwise with the user name
  of the URL and its password, which is empty when the URL sets none. An error of
  \<open>socksDialerFunction\<close> is an error of that call.
\<close>

theorem socksDialerFunction_auth:
  "(User u = None \<longrightarrow>
      socksDialerFunction SOCKS5 u forward = SOCKS5 ''tcp'' (Host u) None forward) \<and>
   (\<forall>ui. User u = Some ui \<longrightarrow>
      socksDialerFunction SOCKS5 u forward =
        SOCKS5 ''tcp'' (Host u)
          (Some \<lparr>auth_User = Username ui,
                 auth_Password = (if snd (Password ui) then fst (Password ui) else '''')\<rparr>)
          forward) \<and>
   (\<forall>err. socksDialerFunction SOCKS5 u forward = Inl err \<longrightarrow>
      (\<exists>auth. SOCKS5 ''tcp'' (Host u) auth forward = Inl err))"
  by (auto simp add: socksDialerFunction_def Let_def Password_def split: option.splits)

theorem socksDialerFunction_auth_witness:
  "socksDialerFunction sample_SOCKS5
       \<lparr>Scheme = ''socks'', User = None, Host = ''127.0.0.1:1080''\<rparr> ''direct'' =
     sample_SOCKS5 ''tcp'' ''127.0.0.1:1080'' None ''direct'' \<and>
   socksDialerFunction sample_SOCKS5
       \<lparr>Scheme = ''socks'',
          User = Some \<lparr>username = ''alice'', password = '''', passwordSet = False\<rparr>,
          Host = ''127.0.0.1:1080''\<rparr> ''direct'' =
     sample_SOCKS5 ''tcp'' ''127.0.0.1:1080''
       (Some \<lparr>auth_User = ''alice'', auth_Password = ''''\<rparr>) ''direct'' \<and>
   socksDialerFunction sample_SOCKS5
       \<lparr>Scheme = ''socks'',
          User = Some \<lparr>username = ''alice'', password = ''secret'', passwordSet = True\<rparr>,
          Host = ''127.0.0.1:1080''\<rparr> ''direct'' =
     sample_SOCKS5 ''tcp'' ''127.0.0.1:1080''
       (Some \<lparr>auth_User = ''alice'', auth_Password = ''secret''\<rparr>) ''direct'' \<and>
   socksDialerFunction sample_SOCKS5
       \<lparr>Scheme = ''socks'',
          User = Some \<lparr>username = ''alice'', password = '''', passwordSet = False\<rparr>,
          Host = ''''\<rparr> ''direct'' = Inl (Error ''missing host'') \<and>
   (\<exists>auth. sample_SOCKS5 ''tcp'' '''' auth ''direct'' = Inl (Error ''missing host''))"
proof -
  have e: "socksDialerFunction sample_SOCKS5
       \<lparr>Scheme = ''socks'',
          User = Some \<lparr>username = ''alice'', password = '''', passwordSet = False\<rparr>,
          Host = ''''\<rparr> ''direct'' = Inl (Error ''missing host'')"
    by (simp add: socksDialerFunction_def sample_SOCKS5_def)
  show ?thesis
    using e
      socksDialerFunction_auth [of
        "\<lparr>Scheme = ''socks'', User = None, Host = ''127.0.0.1:1080''\<rparr>"
        sample_SOCKS5 "''direct''"]
      socksDialerFunction_auth [of
        "\<lparr>Scheme = ''socks'',
           User = Some \<lparr>username = ''alice'', password = '''', passwordSet = False\<rparr>,
           Host = ''127.0.0.1:1080''\<rparr>"
        sample_SOCKS5 "''direct''"]
      socksDialerFunction_auth [of
        "\<lparr>Scheme = ''socks'',
           User = Some \<lparr>username = ''alice'', password = ''secret'', passwordSet = True\<rparr>,
           Host = ''127.0.0.1:1080''\<rparr>"
        sample_SOCKS5 "''direct''"]
      socksDialerFunction_auth [of
        "\<lparr>Scheme = ''socks'',
           User = Some \<lparr>username = ''alice'', password = '''', passwordSet = False\<rparr>,
           Host = ''''\<rparr>"
        sample_SOCKS5 "''direct''"]
    by (simp add: Username_def Password_def)
qed

section \<open>Properties of lib/sha256/sha256.go\<close>

lemma select_keeps_rates:
  "cryptoPerf (selectMinio v) = cryptoPerf v"
  "minioPerf (selectMinio v) = minioPerf v"
  "minioAvx512Perf (selectMinio v) = minioAvx512Perf v"
  "cryptoPerf (selectMinioAvx512 v) = cryptoPerf v"
  "minioPerf (selectMinioAvx512 v) = minioPerf v"
  "minioAvx512Perf (selectMinioAvx512 v) = minioAvx512Perf v"
  by (simp_all add: selectMinio_def selectMinioAvx512_def)

lemma select_sets_impl:
  "selectedImpl (selectMinio v) = minioImpl"
  "selectedImpl (selectMinioAvx512 v) = minioAvx512Impl"
  by (simp_all add: selectMinio_def selectMinioAvx512_def)

lemma benchmark_loop_keeps_impl:
  "selectedImpl (fst (benchmark_loop cpuBenchOnce n v w)) = selectedImpl v"
  by (induction cpuBenchOnce n v w rule: benchmark_loop.induct)
    (auto simp add: Let_def split: prod.splits)

lemma add_servers_keeps_impl:
  "selectedImpl (fst (add_servers NewAvx512Server n v w)) = selectedImpl v"
  by (induction NewAvx512Server n v w rule: add_servers.induct) (auto split: prod.splits)

lemma impl_names_distinct:
  "minioImpl \<noteq> defaultImpl" "minioAvx512Impl \<noteq> defaultImpl" "minioImpl \<noteq> minioAvx512Impl"
  by (simp_all add: minioImpl_def defaultImpl_def minioAvx512Impl_def)

text \<open>
  C10. With \<open>STHASHING\<close> unset and the default implementation selected at entry,
  \<open>SelectAlgo\<close> selects by the order of the cases of its \<open>switch\<close>: minio exactly when
  its rate equals the best rate, also when the crypto rate equals it too; avx512 exactly
  when its rate equals the best rate and the minio rate does not; and the default stays
  exactly when neither of the two rates equals the best rate.
\<close>

theorem SelectAlgo_tie_order:
  assumes "Getenv ''STHASHING'' = ''''"
    and "selectedImpl v = defaultImpl"
    and "SelectAlgo cpu NumCPU NewAvx512Server Getenv cpuBenchOnce hexNew hexSum v w =
           (p, v', w')"
  shows "let bestPerf = math_Max (math_Max (minioPerf v') (minioAvx512Perf v')) (cryptoPerf v')
         in (selectedImpl v' = minioImpl \<longleftrightarrow> f64_eq bestPerf (minioPerf v')) \<and>
            (selectedImpl v' = minioAvx512Impl \<longleftrightarrow>
               \<not> f64_eq bestPerf (minioPerf v') \<and> f64_eq bestPerf (minioAvx512Perf v')) \<and>
            (selectedImpl v' = defaultImpl \<longleftrightarrow>
               \<not> f64_eq bestPerf (minioPerf v') \<and> \<not> f64_eq bestPerf (minioAvx512Perf v'))"
proof -
  obtain v1 w1 where s1:
    "(if AVX512F cpu \<and> AVX512DQ cpu \<and> AVX512BW cpu \<and> AVX512VL cpu
      then add_servers NewAvx512Server NumCPU v w else (v, w)) = (v1, w1)"
    by (metis prod.exhaust)
  obtain v2 w2 where s2: "benchmark cpuBenchOnce v1 w1 = (v2, w2)"
    by (metis prod.exhaust)
  have i1: "selectedImpl v1 = defaultImpl"
    using s1 assms(2) add_servers_keeps_impl [of NewAvx512Server NumCPU v w]
    by (auto split: if_splits)
  have i2: "selectedImpl v2 = defaultImpl"
    using s2 i1 benchmark_loop_keeps_impl [of cpuBenchOnce benchmarkingIterations v1 w1]
    by (simp add: benchmark_def)
  show ?thesis
    using assms(3) assms(1) s1 s2 i2 impl_names_distinct
    by (auto simp add: SelectAlgo_def Let_def select_keeps_rates select_sets_impl
        split: if_splits)
qed

theorem SelectAlgo_tie_order_witness:
  "sample_env '''' ''STHASHING'' = '''' \<and>
   selectedImpl initial_vars = defaultImpl \<and>
   SelectAlgo sample_cpu 4 (Pair 0) (sample_env '''') sample_bench sample_hex sample_hex
       initial_vars () =
     (None,
      \<lparr>New = MinioSha256, Sum256 = MinioSha256, selectedImpl = minioImpl,
         cryptoPerf = Finite 250, minioPerf = Finite 250, minioAvx512Perf = Finite 0,
         avx512Servers = []\<rparr>, ()) \<and>
   math_Max (math_Max (Finite 250) (Finite 0)) (Finite 250) = Finite 250 \<and>
   f64_eq (Finite 250) (Finite 250)"
proof -
  have env: "sample_env '''' ''STHASHING'' = ''''"
    by (simp add: sample_env_def)
  have init: "selectedImpl initial_vars = defaultImpl"
    by (simp add: initial_vars_def)
  have run: "SelectAlgo sample_cpu 4 (Pair 0) (sample_env '''') sample_bench sample_hex
       sample_hex initial_vars () =
     (None,
      \<lparr>New = MinioSha256, Sum256 = MinioSha256, selectedImpl = minioImpl,
         cryptoPerf = Finite 250, minioPerf = Finite 250, minioAvx512Perf = Finite 0,
         avx512Servers = []\<rparr>, ())"
    by (simp add: SelectAlgo_def sample_cpu_def sample_env_def benchmark_def
        benchmarkingIterations_def eval_nat_numeral sample_bench_def initial_vars_def Let_def
        math_Max_def selectMinio_def verifyCorrectness_def sample_hex_def)
  show ?thesis
    using env init run
      SelectAlgo_tie_order [where Getenv = "sample_env ''''" and v = initial_vars
        and cpu = sample_cpu and NumCPU = 4 and NewAvx512Server = "Pair 0"
        and cpuBenchOnce = sample_bench and hexNew = sample_hex and hexSum = sample_hex
        and w = "()", OF env init run]
    by (simp add: math_Max_def)
qed

end
